theory Spec2Isabelle
  imports Main "HOL-Library.Sublist"
begin

section \<open>Strings\<close>

text \<open>
  Python strings are modelled as \<^typ>\<open>string\<close>, a character being a code point
  from 0 to 255. \<open>is_space\<close> lists the code points of that range for which
  Python's \<^verbatim>\<open>str.isspace\<close> holds: the ones \<^verbatim>\<open>str.strip()\<close> removes and the
  ones at which the library splits a list of classes. Among them are the next-line
  character U+0085 and the non-breaking space U+00A0.
\<close>

definition is_space :: "char \<Rightarrow> bool" where
  "is_space c =
     (c = CHR 0x09 \<or> c = CHR 0x0A \<or> c = CHR 0x0B \<or> c = CHR 0x0C \<or> c = CHR 0x0D \<or>
      c = CHR 0x1C \<or> c = CHR 0x1D \<or> c = CHR 0x1E \<or> c = CHR 0x1F \<or> c = CHR 0x20 \<or>
      c = CHR 0x85 \<or> c = CHR 0xA0)"

text \<open>\<^verbatim>\<open>s.strip()\<close>: leading and trailing whitespace removed.\<close>

definition strip :: "string \<Rightarrow> string" where
  "strip s = rev (dropWhile is_space (rev (dropWhile is_space s)))"

text \<open>\<^verbatim>\<open>s.startswith(p)\<close>, \<^verbatim>\<open>s.endswith(p)\<close> and \<^verbatim>\<open>p in s\<close>.\<close>

fun startswith :: "string \<Rightarrow> string \<Rightarrow> bool" where
  "startswith s [] = True"
| "startswith [] (p # ps) = False"
| "startswith (c # cs) (p # ps) = (c = p \<and> startswith cs ps)"

definition endswith :: "string \<Rightarrow> string \<Rightarrow> bool" where
  "endswith s p = startswith (rev s) (rev p)"

fun contains :: "string \<Rightarrow> string \<Rightarrow> bool" where
  "contains p [] = (p = [])"
| "contains p (c # cs) = (startswith (c # cs) p \<or> contains p cs)"

text \<open>
  \<^verbatim>\<open>s.split()\<close>: the maximal runs of non-whitespace characters. The first
  argument of \<open>split_acc\<close> is the run read so far.
\<close>

fun split_acc :: "string \<Rightarrow> string \<Rightarrow> string list" where
  "split_acc w [] = (if w = [] then [] else [w])"
| "split_acc w (c # cs) =
     (if is_space c then (if w = [] then split_acc [] cs else w # split_acc [] cs)
      else split_acc (w @ [c]) cs)"

definition split_ws :: "string \<Rightarrow> string list" where
  "split_ws s = split_acc [] s"

text \<open>\<^verbatim>\<open>' '.join(ws)\<close>.\<close>

fun join_space :: "string list \<Rightarrow> string" where
  "join_space [] = []"
| "join_space [w] = w"
| "join_space (w # v # ws) = w @ CHR '' '' # join_space (v # ws)"

text \<open>\<^verbatim>\<open>str(n)\<close> for a non-negative integer: its decimal digits.\<close>

definition digit_char :: "nat \<Rightarrow> char" where
  "digit_char d = ''0123456789'' ! d"

fun str_nat :: "nat \<Rightarrow> string" where
  "str_nat n =
     (if n < 10 then [digit_char n] else str_nat (n div 10) @ [digit_char (n mod 10)])"


section \<open>The parsed page (BeautifulSoup)\<close>

text \<open>
  The tree that \<^verbatim>\<open>BeautifulSoup(text, 'html.parser')\<close> builds: a tag has a name,
  a dictionary of attributes and a list of children; the leaves are text
  (\<^verbatim>\<open>NavigableString\<close>) and comments. \<open>Comment\<close> stands for every kind of
  string that \<^verbatim>\<open>get_text\<close> leaves out: comments, declarations, and the contents
  of \<^verbatim>\<open>script\<close>, \<^verbatim>\<open>style\<close> and \<^verbatim>\<open>template\<close> elements. The attribute dictionary is an association
  list read with \<^const>\<open>map_of\<close>. The attributes \<^verbatim>\<open>class\<close>, \<^verbatim>\<open>accesskey\<close> and
  \<^verbatim>\<open>dropzone\<close> are multi-valued for the library: it stores them split at
  whitespace. The tree keeps the attribute text, and the split is applied where a
  search compares the value.
\<close>

datatype node =
    Tag string "(string \<times> string) list" "node list"
  | NavigableString string
  | Comment string

text \<open>\<^verbatim>\<open>tag.descendants\<close>: every node below the tag, in document order.\<close>

fun descendants :: "node \<Rightarrow> node list" where
  "descendants (Tag n a cs) = concat (map (\<lambda>c. c # descendants c) cs)"
| "descendants (NavigableString s) = []"
| "descendants (Comment s) = []"

definition is_multi_valued :: "string \<Rightarrow> bool" where
  "is_multi_valued k = (k = ''class'' \<or> k = ''accesskey'' \<or> k = ''dropzone'')"

text \<open>
  One entry \<^verbatim>\<open>{k: v}\<close> of a search filter against the attributes of a tag. A
  single-valued attribute matches when it is present and equal to \<open>v\<close>. A
  multi-valued one matches when one of its values is \<open>v\<close>, or when the values
  joined by one space are \<open>v\<close>.
\<close>

definition attr_matches :: "(string \<times> string) list \<Rightarrow> string \<times> string \<Rightarrow> bool" where
  "attr_matches at kv =
     (case map_of at (fst kv) of
        None \<Rightarrow> False
      | Some actual \<Rightarrow>
          if is_multi_valued (fst kv)
          then List.member (split_ws actual) (snd kv) \<or> join_space (split_ws actual) = snd kv
          else actual = snd kv)"

definition tag_matches :: "string \<Rightarrow> (string \<times> string) list \<Rightarrow> node \<Rightarrow> bool" where
  "tag_matches nm want n =
     (case n of
        Tag m at cs \<Rightarrow> m = nm \<and> list_all (attr_matches at) want
      | NavigableString s \<Rightarrow> False
      | Comment s \<Rightarrow> False)"

text \<open>
  \<^verbatim>\<open>tag.find_all(name, attrs)\<close> returns the matching descendants in document
  order; \<^verbatim>\<open>tag.find(name, attrs)\<close> returns the first of them, or \<^verbatim>\<open>None\<close>.
\<close>

definition find_all :: "node \<Rightarrow> string \<Rightarrow> (string \<times> string) list \<Rightarrow> node list" where
  "find_all n nm want = filter (tag_matches nm want) (descendants n)"

definition find_first :: "node \<Rightarrow> string \<Rightarrow> (string \<times> string) list \<Rightarrow> node option" where
  "find_first n nm want = (case find_all n nm want of [] \<Rightarrow> None | x # xs \<Rightarrow> Some x)"

text \<open>\<^verbatim>\<open>tag.attrs\<close>, and \<^verbatim>\<open>tag.get(k, default)\<close>.\<close>

fun attrs :: "node \<Rightarrow> (string \<times> string) list" where
  "attrs (Tag n a cs) = a"
| "attrs (NavigableString s) = []"
| "attrs (Comment s) = []"

definition get_attr :: "node \<Rightarrow> string \<Rightarrow> string \<Rightarrow> string" where
  "get_attr n k d = (case map_of (attrs n) k of None \<Rightarrow> d | Some v \<Rightarrow> v)"

text \<open>
  \<^verbatim>\<open>tag.get_text(strip=True)\<close>: the text nodes below the tag in document order
  (comments are left out), each stripped, the empty ones dropped, joined with
  nothing between them.
\<close>

fun node_string :: "node \<Rightarrow> string list" where
  "node_string (Tag n a cs) = []"
| "node_string (NavigableString s) = [s]"
| "node_string (Comment s) = []"

definition all_strings :: "node \<Rightarrow> string list" where
  "all_strings n = concat (map node_string (descendants n))"

definition get_text_strip :: "node \<Rightarrow> string" where
  "get_text_strip n = concat (filter (\<lambda>s. s \<noteq> []) (map strip (all_strings n)))"


section \<open>Requests, responses and the session (requests)\<close>

datatype http_method = GET | POST

record request =
  "method" :: http_method
  url :: string
  params :: "(string \<times> string) list"
  data :: "(string \<times> string) list"
  timeout :: nat

record response =
  status_code :: nat
  reason :: string
  response_url :: string
  "text" :: string

text \<open>
  The failures of the transport are the exceptions of
  \<^verbatim>\<open>requests.exceptions.RequestException\<close>; each carries its message.
\<close>

datatype request_exception =
    ConnectionRefused string
  | ConnectTimeout string
  | ReadTimeout string
  | NameResolutionError string
  | HTTPError string

fun exc_str :: "request_exception \<Rightarrow> string" where
  "exc_str (ConnectionRefused m) = m"
| "exc_str (ConnectTimeout m) = m"
| "exc_str (ReadTimeout m) = m"
| "exc_str (NameResolutionError m) = m"
| "exc_str (HTTPError m) = m"

text \<open>
  \<^verbatim>\<open>response.raise_for_status()\<close> raises \<^verbatim>\<open>HTTPError\<close> for a status from 400 to
  599 and returns otherwise.
\<close>

definition raise_for_status :: "response \<Rightarrow> request_exception option" where
  "raise_for_status r =
     (if 400 \<le> status_code r \<and> status_code r < 500
      then Some (HTTPError (str_nat (status_code r) @ '' Client Error: '' @ reason r @
                            '' for url: '' @ response_url r))
      else if 500 \<le> status_code r \<and> status_code r < 600
      then Some (HTTPError (str_nat (status_code r) @ '' Server Error: '' @ reason r @
                            '' for url: '' @ response_url r))
      else None)"

text \<open>
  The session holds the cookies. \<open>issued\<close> is the trace of the requests the
  session has made, oldest first: it is how a theorem observes which requests an
  operation makes.
\<close>

record session =
  cookies :: "(string \<times> string) list"
  issued :: "request list"

text \<open>
  The network and the server are a parameter: given the session as it stands and
  a request, the cookies afterwards, and either a transport failure or a response.
  The reply may depend on the requests made before, through \<open>issued\<close>.
\<close>

type_synonym network =
  "session \<Rightarrow> request \<Rightarrow> (string \<times> string) list \<times> (request_exception + response)"

definition send :: "network \<Rightarrow> session \<Rightarrow> request \<Rightarrow> session \<times> (request_exception + response)" where
  "send net s rq =
     (case net s rq of
        (ck, r) \<Rightarrow> (\<lparr>cookies = ck, issued = issued s @ [rq]\<rparr>, r))"

text \<open>\<^verbatim>\<open>session.get(url, params=..., timeout=...)\<close> and \<^verbatim>\<open>session.post(url, data=..., timeout=...)\<close>.\<close>

definition session_get ::
  "network \<Rightarrow> session \<Rightarrow> string \<Rightarrow> (string \<times> string) list \<Rightarrow> nat \<Rightarrow>
   session \<times> (request_exception + response)" where
  "session_get net s u ps t =
     send net s \<lparr>method = GET, url = u, params = ps, data = [], timeout = t\<rparr>"

definition session_post ::
  "network \<Rightarrow> session \<Rightarrow> string \<Rightarrow> (string \<times> string) list \<Rightarrow> nat \<Rightarrow>
   session \<times> (request_exception + response)" where
  "session_post net s u d t =
     send net s \<lparr>method = POST, url = u, params = [], data = d, timeout = t\<rparr>"


section \<open>The client\<close>

text \<open>
  The exceptions a call can end with. \<open>ConnectionError m e\<close> has the message
  \<open>m\<close> and the cause \<open>e\<close> (\<^verbatim>\<open>raise ... from e\<close>). \<open>RequestException e\<close> is a
  transport exception that nothing caught. \<open>AttributeError a\<close> is Python's
  fault for reading the attribute \<open>a\<close> of \<^verbatim>\<open>None\<close>.
\<close>

datatype exn =
    AuthenticationError string
  | TableDataError string
  | ConnectionError string request_exception
  | RequestException request_exception
  | AttributeError string

text \<open>
  The session is an object the client refers to: what a call does to it stays done
  when the call ends with an exception, so both operations return the client with
  the session as the requests left it.
\<close>

record client =
  base_url :: string
  username :: string
  password :: string
  session :: session

definition new_session :: session where
  "new_session = \<lparr>cookies = [], issued = []\<rparr>"

text \<open>\<^verbatim>\<open>PhpMyAdminClient.__init__\<close>.\<close>

definition init :: "string \<Rightarrow> string \<Rightarrow> string \<Rightarrow> client" where
  "init b u p =
     \<lparr>base_url = (if \<not> endswith b ''/'' then b @ ''/'' else b),
      username = u, password = p, session = new_session\<rparr>"

text \<open>\<^verbatim>\<open>_extract_csrf_token\<close>.\<close>

definition extract_csrf_token :: "node \<Rightarrow> exn + string" where
  "extract_csrf_token soup =
     (case find_first soup ''input'' [(''name'', ''token'')] of
        None \<Rightarrow> Inl (AuthenticationError ''Could not find CSRF token on login page.'')
      | Some token_element \<Rightarrow>
          (case map_of (attrs token_element) ''value'' of
             None \<Rightarrow> Inl (AuthenticationError ''Could not find CSRF token on login page.'')
           | Some v \<Rightarrow> Inr v))"

definition login_form_marker :: string where
  \<open>login_form_marker = ''name="login_form"''\<close>

text \<open>
  The handler \<^verbatim>\<open>except requests.exceptions.RequestException as e\<close> of both
  operations: a transport exception becomes a \<open>ConnectionError\<close> with that
  exception as its cause; every other outcome passes.
\<close>

fun except_request_exception :: "exn + 'a \<Rightarrow> exn + 'a" where
  "except_request_exception (Inl (RequestException e)) =
     Inl (ConnectionError (''Connection error: '' @ exc_str e) e)"
| "except_request_exception r = r"

text \<open>
  The body of the \<^verbatim>\<open>try\<close> of \<^verbatim>\<open>authenticate\<close>, returning the session as the
  requests left it. The HTML parser of the library is the parameter \<open>parser\<close>,
  from the text of a response to its tree.
\<close>

definition authenticate_try ::
  "network \<Rightarrow> (string \<Rightarrow> node) \<Rightarrow> client \<Rightarrow> session \<times> (exn + bool)" where
  "authenticate_try net parser c =
     (case session_get net (session c) (base_url c) [] 10 of
        (s1, Inl e) \<Rightarrow> (s1, Inl (RequestException e))
      | (s1, Inr response) \<Rightarrow>
          (case raise_for_status response of
             Some e \<Rightarrow> (s1, Inl (RequestException e))
           | None \<Rightarrow>
               (case extract_csrf_token (parser (text response)) of
                  Inl e \<Rightarrow> (s1, Inl e)
                | Inr token \<Rightarrow>
                    (case session_post net s1 (base_url c @ ''index.php'')
                            [(''pma_username'', username c),
                             (''pma_password'', password c),
                             (''server'', ''1''),
                             (''token'', token)] 10 of
                       (s2, Inl e) \<Rightarrow> (s2, Inl (RequestException e))
                     | (s2, Inr response2) \<Rightarrow>
                         (case raise_for_status response2 of
                            Some e \<Rightarrow> (s2, Inl (RequestException e))
                          | None \<Rightarrow>
                              if contains login_form_marker (text response2)
                              then (s2, Inl (AuthenticationError ''Login failed. Check credentials.''))
                              else (s2, Inr True))))))"

definition authenticate ::
  "network \<Rightarrow> (string \<Rightarrow> node) \<Rightarrow> client \<Rightarrow> (exn + bool) \<times> client" where
  "authenticate net parser c =
     (case authenticate_try net parser c of
        (s, r) \<Rightarrow> (except_request_exception r, c\<lparr>session := s\<rparr>))"

text \<open>\<^verbatim>\<open>_extract_headers\<close> and \<^verbatim>\<open>_extract_table_data\<close>.\<close>

definition extract_headers :: "node \<Rightarrow> exn + string list" where
  "extract_headers table =
     (case find_first table ''thead'' [] of
        None \<Rightarrow> Inl (AttributeError ''find_all'')
      | Some thead \<Rightarrow>
          Inr (map (\<lambda>th. get_attr th ''data-column'' ''N/A'')
                 (find_all thead ''th'' [(''class'', ''column_heading'')])))"

definition extract_table_data :: "node \<Rightarrow> exn + string list list" where
  "extract_table_data table =
     (case find_first table ''tbody'' [] of
        None \<Rightarrow> Inl (AttributeError ''find_all'')
      | Some tbody \<Rightarrow>
          Inr (map (\<lambda>tr. map get_text_strip (find_all tr ''td'' [(''class'', ''data'')]))
                 (find_all tbody ''tr'' [])))"

text \<open>
  The body of the \<^verbatim>\<open>try\<close> of \<^verbatim>\<open>get_table_data\<close>. The parameter \<^verbatim>\<open>pos\<close> is
  the integer 0, which the library sends as the text \<^verbatim>\<open>0\<close>.
\<close>

definition get_table_data_try ::
  "network \<Rightarrow> (string \<Rightarrow> node) \<Rightarrow> client \<Rightarrow> string \<Rightarrow> string \<Rightarrow>
   session \<times> (exn + string list \<times> string list list)" where
  "get_table_data_try net parser c database table =
     (case session_get net (session c) (base_url c @ ''index.php'')
             [(''route'', ''/sql''), (''db'', database), (''table'', table), (''pos'', ''0'')] 10 of
        (s1, Inl e) \<Rightarrow> (s1, Inl (RequestException e))
      | (s1, Inr response) \<Rightarrow>
          (case raise_for_status response of
             Some e \<Rightarrow> (s1, Inl (RequestException e))
           | None \<Rightarrow>
               (case find_first (parser (text response)) ''table'' [(''class'', ''table_results'')] of
                  None \<Rightarrow>
                    (s1, Inl (TableDataError
                       (''Could not find table data for '' @ database @ ''.'' @ table @ ''. '' @
                        ''Check database/table names or permissions.'')))
                | Some result_table \<Rightarrow>
                    (case extract_headers result_table of
                       Inl e \<Rightarrow> (s1, Inl e)
                     | Inr headers \<Rightarrow>
                         (case extract_table_data result_table of
                            Inl e \<Rightarrow> (s1, Inl e)
                          | Inr table_data \<Rightarrow> (s1, Inr (headers, table_data)))))))"

definition get_table_data ::
  "network \<Rightarrow> (string \<Rightarrow> node) \<Rightarrow> client \<Rightarrow> string \<Rightarrow> string \<Rightarrow>
   (exn + string list \<times> string list list) \<times> client" where
  "get_table_data net parser c database table =
     (case get_table_data_try net parser c database table of
        (s, r) \<Rightarrow> (except_request_exception r, c\<lparr>session := s\<rparr>))"


section \<open>What a page holds\<close>

text \<open>
  The elements the operations look for, described by tag name and attributes,
  independently of the search filters above.
\<close>

fun is_tag :: "string \<Rightarrow> node \<Rightarrow> bool" where
  "is_tag nm (Tag m a cs) = (m = nm)"
| "is_tag nm (NavigableString s) = False"
| "is_tag nm (Comment s) = False"

definition has_class :: "string \<Rightarrow> node \<Rightarrow> bool" where
  "has_class c n =
     (case map_of (attrs n) ''class'' of
        None \<Rightarrow> False
      | Some v \<Rightarrow> List.member (split_ws v) c)"

definition is_token_input :: "node \<Rightarrow> bool" where
  "is_token_input n = (is_tag ''input'' n \<and> map_of (attrs n) ''name'' = Some ''token'')"

definition is_results_table :: "node \<Rightarrow> bool" where
  "is_results_table n = (is_tag ''table'' n \<and> has_class ''table_results'' n)"

definition is_column_heading :: "node \<Rightarrow> bool" where
  "is_column_heading n = (is_tag ''th'' n \<and> has_class ''column_heading'' n)"

definition is_data_cell :: "node \<Rightarrow> bool" where
  "is_data_cell n = (is_tag ''td'' n \<and> has_class ''data'' n)"

text \<open>
  Strings with no whitespace inside: \<open>one_word s\<close> holds when \<open>s\<close> is whitespace,
  then characters that are not whitespace, then whitespace; \<open>non_spaces s\<close> is
  \<open>s\<close> without its whitespace.
\<close>

fun trailing_spaces :: "string \<Rightarrow> bool" where
  "trailing_spaces [] = True"
| "trailing_spaces (c # cs) = (if is_space c then list_all is_space cs else trailing_spaces cs)"

fun one_word :: "string \<Rightarrow> bool" where
  "one_word [] = True"
| "one_word (c # cs) = (if is_space c then one_word cs else trailing_spaces cs)"

definition non_spaces :: "string \<Rightarrow> string" where
  "non_spaces s = filter (\<lambda>c. \<not> is_space c) s"


text \<open>The two requests of \<^verbatim>\<open>authenticate\<close> and the request of \<^verbatim>\<open>get_table_data\<close>.\<close>

definition login_page_request :: "client \<Rightarrow> request" where
  "login_page_request c =
     \<lparr>method = GET, url = base_url c, params = [], data = [], timeout = 10\<rparr>"

definition login_request :: "client \<Rightarrow> string \<Rightarrow> request" where
  "login_request c tok =
     \<lparr>method = POST, url = base_url c @ ''index.php'', params = [],
      data = [(''pma_username'', username c), (''pma_password'', password c),
              (''server'', ''1''), (''token'', tok)],
      timeout = 10\<rparr>"

definition table_request :: "client \<Rightarrow> string \<Rightarrow> string \<Rightarrow> request" where
  "table_request c database table =
     \<lparr>method = GET, url = base_url c @ ''index.php'',
      params = [(''route'', ''/sql''), (''db'', database), (''table'', table), (''pos'', ''0'')],
      data = [], timeout = 10\<rparr>"

definition is_post :: "request \<Rightarrow> bool" where
  "is_post rq = (method rq = POST)"


section \<open>A scripted server and fixture pages\<close>

text \<open>
  A server that answers the n-th request of the session with the n-th entry of a
  script and refuses the connection afterwards; it sets no cookie.
\<close>

definition scripted :: "(request_exception + response) list \<Rightarrow> network" where
  "scripted replies s rq =
     (cookies s,
      case drop (length (issued s)) replies of
        [] \<Rightarrow> Inl (ConnectionRefused ''Connection refused'')
      | r # rs \<Rightarrow> r)"

definition ok_response :: "string \<Rightarrow> response" where
  "ok_response t = \<lparr>status_code = 200, reason = ''OK'', response_url = [], text = t\<rparr>"

text \<open>A parser known on one page only: the text \<open>t\<close> parses as the tree \<open>n\<close>.\<close>

definition parses_as :: "string \<Rightarrow> node \<Rightarrow> string \<Rightarrow> node" where
  "parses_as t n t' = (if t' = t then n else Tag ''[document]'' [] [])"

definition document :: "node list \<Rightarrow> node" where
  "document ns = Tag ''[document]'' [] ns"

definition client0 :: client where
  "client0 = init ''http://pma.test/phpmyadmin'' ''test'' ''secret''"

definition welcome_html :: string where
  \<open>welcome_html = ''<div id="pma_navigation">Server: localhost</div>''\<close>

definition rejected_html :: string where
  \<open>rejected_html = ''<form method="post" name="login_form" class="login"></form>''\<close>

text \<open>Cells of a results grid: a heading with its \<^verbatim>\<open>data-column\<close>, and a data cell.\<close>

definition heading :: "string \<Rightarrow> string \<Rightarrow> node" where
  "heading col label =
     Tag ''th'' [(''class'', ''draggable column_heading''), (''data-column'', col)]
       [NavigableString label]"

definition cell :: "string \<Rightarrow> node" where
  "cell s = Tag ''td'' [(''class'', ''data'')] [NavigableString s]"


section \<open>Fixtures of the login page\<close>

definition login_html :: string where
  \<open>login_html = ''<form method="post"><input type="hidden" name="token" value="abc123"></form>''\<close>

definition login_soup :: node where
  "login_soup =
     document
       [Tag ''form'' [(''method'', ''post'')]
          [Tag ''input'' [(''type'', ''hidden''), (''name'', ''token''), (''value'', ''abc123'')] []]]"

definition two_token_html :: string where
  \<open>two_token_html = ''<form><input name="token" value="stale0"></form><form><input name="token" value="abc123"></form>''\<close>

definition two_token_soup :: node where
  "two_token_soup =
     document
       [Tag ''form'' [] [Tag ''input'' [(''name'', ''token''), (''value'', ''stale0'')] []],
        Tag ''form'' [] [Tag ''input'' [(''name'', ''token''), (''value'', ''abc123'')] []]]"




definition bare_token_html :: string where
  \<open>bare_token_html = ''<form method="post"><input type="hidden" name="token"></form>''\<close>

definition bare_token_soup :: node where
  "bare_token_soup =
     document
       [Tag ''form'' [(''method'', ''post'')]
          [Tag ''input'' [(''type'', ''hidden''), (''name'', ''token'')] []]]"

definition second_bare_html :: string where
  \<open>second_bare_html = ''<form><input name="token" value="abc123"></form><form><input name="token"></form>''\<close>

definition second_bare_soup :: node where
  "second_bare_soup =
     document
       [Tag ''form'' [] [Tag ''input'' [(''name'', ''token''), (''value'', ''abc123'')] []],
        Tag ''form'' [] [Tag ''input'' [(''name'', ''token'')] []]]"




section \<open>Fixtures of the results page\<close>

definition plain_heading :: "string \<Rightarrow> node" where
  "plain_heading label = Tag ''th'' [(''class'', ''column_heading'')] [NavigableString label]"

definition results_thead_html :: string where
  \<open>results_thead_html = ''<thead><tr><th class="draggable column_heading" data-column="id">id</th><th class="draggable column_heading" data-column="name">name</th></tr></thead>''\<close>

definition results_thead :: node where
  "results_thead = Tag ''thead'' [] [Tag ''tr'' [] [heading ''id'' ''id'', heading ''name'' ''name'']]"

definition results_tbody_html :: string where
  \<open>results_tbody_html = ''<tbody><tr><td class="data"> 1 </td><td class="data">alice</td></tr><tr><td class="data">2</td><td class="data"> bob  </td></tr></tbody>''\<close>

definition results_tbody :: node where
  "results_tbody =
     Tag ''tbody'' []
       [Tag ''tr'' [] [cell '' 1 '', cell ''alice''],
        Tag ''tr'' [] [cell ''2'', cell '' bob  '']]"

definition results_grid_html :: string where
  \<open>results_grid_html =
     ''<table class="table_results data ajax">'' @ results_thead_html @ results_tbody_html @
     ''</table>''\<close>

definition results_grid :: node where
  "results_grid =
     Tag ''table'' [(''class'', ''table_results data ajax'')] [results_thead, results_tbody]"

definition results_html :: string where
  "results_html = ''<h2>Showing rows 0 - 1</h2>'' @ results_grid_html"

definition results_soup :: node where
  "results_soup = document [Tag ''h2'' [] [NavigableString ''Showing rows 0 - 1''], results_grid]"

text \<open>
  Another grid: its heading has no \<^verbatim>\<open>data-column\<close>, and its one cell holds a
  comment and the text 9 between two non-breaking spaces.
\<close>

definition other_grid_html :: string where
  \<open>other_grid_html = ''<table class="table_results"><thead><tr><th class="column_heading">count</th></tr></thead><tbody><tr><td class="data"><!-- n -->&nbsp;9&nbsp;</td></tr></tbody></table>''\<close>

definition other_grid :: node where
  "other_grid =
     Tag ''table'' [(''class'', ''table_results'')]
       [Tag ''thead'' [] [Tag ''tr'' [] [plain_heading ''count'']],
        Tag ''tbody'' []
          [Tag ''tr'' []
             [Tag ''td'' [(''class'', ''data'')]
                [Comment '' n '', NavigableString [CHR 0xA0, CHR ''9'', CHR 0xA0]]]]]"

definition two_grids_html :: string where
  "two_grids_html = other_grid_html @ results_grid_html"

definition two_grids_soup :: node where
  "two_grids_soup = document [other_grid, results_grid]"

text \<open>A grid with two \<^verbatim>\<open>tbody\<close> elements, and one with two \<^verbatim>\<open>thead\<close> elements.\<close>

definition two_tbody_html :: string where
  \<open>two_tbody_html =
     ''<table class="table_results">'' @ results_thead_html @
     ''<tbody><tr><td class="data">x</td></tr></tbody>'' @ results_tbody_html @ ''</table>''\<close>

definition two_tbody_soup :: node where
  "two_tbody_soup =
     document
       [Tag ''table'' [(''class'', ''table_results'')]
          [results_thead, Tag ''tbody'' [] [Tag ''tr'' [] [cell ''x'']], results_tbody]]"

definition two_thead_html :: string where
  \<open>two_thead_html =
     ''<table class="table_results"><thead><tr><th class="draggable column_heading" data-column="k">k</th></tr></thead>'' @
     results_thead_html @ results_tbody_html @ ''</table>''\<close>

definition two_thead_soup :: node where
  "two_thead_soup =
     document
       [Tag ''table'' [(''class'', ''table_results'')]
          [Tag ''thead'' [] [Tag ''tr'' [] [heading ''k'' ''k'']], results_thead, results_tbody]]"



definition no_thead_html :: string where
  \<open>no_thead_html = ''<table class="table_results"><tbody><tr><td class="data">1</td></tr></tbody></table>''\<close>

definition no_thead_soup :: node where
  "no_thead_soup =
     document [Tag ''table'' [(''class'', ''table_results'')]
                 [Tag ''tbody'' [] [Tag ''tr'' [] [cell ''1'']]]]"

definition no_tbody_html :: string where
  \<open>no_tbody_html = ''<table class="table_results"><thead><tr><th class="draggable column_heading" data-column="id">id</th></tr></thead></table>''\<close>

definition no_tbody_soup :: node where
  "no_tbody_soup =
     document [Tag ''table'' [(''class'', ''table_results'')]
                 [Tag ''thead'' [] [Tag ''tr'' [] [heading ''id'' ''id'']]]]"

definition ragged_html :: string where
  \<open>ragged_html = ''<table class="table_results"><thead><tr><th class="draggable column_heading" data-column="id">id</th><th class="draggable column_heading" data-column="name">name</th></tr></thead><tbody><tr><td class="data">1</td></tr><tr><td class="data">2</td><td class="data">bob</td><td class="data">extra</td></tr></tbody></table>''\<close>

definition ragged_soup :: node where
  "ragged_soup =
     document [Tag ''table'' [(''class'', ''table_results'')]
                 [Tag ''thead'' [] [Tag ''tr'' [] [heading ''id'' ''id'', heading ''name'' ''name'']],
                  Tag ''tbody'' []
                    [Tag ''tr'' [] [cell ''1''],
                     Tag ''tr'' [] [cell ''2'', cell ''bob'', cell ''extra'']]]]"



definition error_response :: "nat \<Rightarrow> string \<Rightarrow> string \<Rightarrow> response" where
  "error_response code phrase u =
     \<lparr>status_code = code, reason = phrase, response_url = u, text = []\<rparr>"



section \<open>Properties of the library model\<close>

lemma startswith_prefix: "startswith s p = prefix p s"
  by (induction s p rule: startswith.induct) auto

lemma contains_sublist: "contains p s = sublist p s"
  by (induction s) (auto simp: startswith_prefix sublist_Cons_right)

lemma endswith_suffix: "endswith s p = suffix p s"
  by (simp add: endswith_def startswith_prefix suffix_to_prefix)

lemma join_space_no_space:
  "join_space ws \<noteq> [] \<Longrightarrow> CHR '' '' \<notin> set (join_space ws) \<Longrightarrow> join_space ws \<in> set ws"
  by (cases ws rule: join_space.cases) auto

lemma find_first_find: "find_first n nm want = List.find (tag_matches nm want) (descendants n)"
proof -
  have "(case filter P xs of [] \<Rightarrow> None | x # ys \<Rightarrow> Some x) = List.find P xs" for P :: "node \<Rightarrow> bool" and xs
    by (induction xs) auto
  then show ?thesis by (simp add: find_first_def find_all_def)
qed

lemma tag_matches_name: "tag_matches nm [] n = is_tag nm n"
  by (cases n) (auto simp: tag_matches_def)

lemma tag_matches_token: "tag_matches ''input'' [(''name'', ''token'')] n = is_token_input n"
  by (cases n) (auto simp: tag_matches_def is_token_input_def attr_matches_def is_multi_valued_def split: option.splits)

lemma tag_matches_class:
  assumes "c \<noteq> []" "CHR '' '' \<notin> set c"
  shows "tag_matches nm [(''class'', c)] n = (is_tag nm n \<and> has_class c n)"
  using assms 
  by (cases n) (auto simp: tag_matches_def has_class_def attr_matches_def is_multi_valued_def  intro: join_space_no_space split: option.splits)

lemma find_token_input:
  "find_first soup ''input'' [(''name'', ''token'')] = List.find is_token_input (descendants soup)"
  by (simp add: find_first_find tag_matches_token cong: find_cong)

lemma extract_csrf_token_found:
  assumes "List.find is_token_input (descendants soup) = Some el"
      and "map_of (attrs el) ''value'' = Some v"
  shows "extract_csrf_token soup = Inr v"
  using assms by (simp add: extract_csrf_token_def find_token_input)

lemma extract_csrf_token_no_value:
  assumes "List.find is_token_input (descendants soup) = Some el"
      and "map_of (attrs el) ''value'' = None"
  shows "extract_csrf_token soup = Inl (AuthenticationError ''Could not find CSRF token on login page.'')"
  using assms by (simp add: extract_csrf_token_def find_token_input)


lemma session_get_issued:
  "session_get net s u ps t = (s', r) \<Longrightarrow>
   issued s' = issued s @ [\<lparr>method = GET, url = u, params = ps, data = [], timeout = t\<rparr>]"
  by (auto simp: session_get_def send_def split: prod.splits)

lemma session_post_issued:
  "session_post net s u d t = (s', r) \<Longrightarrow>
   issued s' = issued s @ [\<lparr>method = POST, url = u, params = [], data = d, timeout = t\<rparr>]"
  by (auto simp: session_post_def send_def split: prod.splits)

lemma authenticate_token_error:
  assumes "session_get net (session c) (base_url c) [] 10 = (s1, Inr r1)"
      and "raise_for_status r1 = None"
      and "extract_csrf_token (parser (text r1)) = Inl e"
  shows "authenticate net parser c = (except_request_exception (Inl e), c\<lparr>session := s1\<rparr>)"
  using assms by (simp add: authenticate_def authenticate_try_def)

lemma authenticate_posts:
  assumes "session_get net (session c) (base_url c) [] 10 = (s1, Inr r1)"
      and "raise_for_status r1 = None"
      and "extract_csrf_token (parser (text r1)) = Inr tok"
  shows "\<exists>r. session_post net s1 (url (login_request c tok)) (data (login_request c tok)) 10
             = (session (snd (authenticate net parser c)), r)"
  using assms
  by (auto simp: authenticate_def authenticate_try_def login_request_def
           split: prod.splits sum.splits option.splits)

lemma authenticate_answered:
  assumes "session_get net (session c) (base_url c) [] 10 = (s1, Inr r1)"
      and "raise_for_status r1 = None"
      and "extract_csrf_token (parser (text r1)) = Inr tok"
      and "session_post net s1 (url (login_request c tok)) (data (login_request c tok)) 10 = (s2, Inr r2)"
      and "raise_for_status r2 = None"
  shows "authenticate net parser c =
           (if contains login_form_marker (text r2)
            then Inl (AuthenticationError ''Login failed. Check credentials.'')
            else Inr True, c\<lparr>session := s2\<rparr>)"
  using assms
  by (simp add: authenticate_def authenticate_try_def login_request_def)

lemma spaces_trailing: "list_all is_space s \<Longrightarrow> trailing_spaces s"
  by (cases s) auto

lemma trailing_one_word: "trailing_spaces s \<Longrightarrow> one_word s"
  by (induction s) (auto simp: spaces_trailing split: if_splits)

lemma trailing_spaces_append:
  "trailing_spaces (p @ q) \<Longrightarrow> trailing_spaces p \<and> trailing_spaces q"
  by (induction p) (auto simp: spaces_trailing split: if_splits)

lemma one_word_append: "one_word (p @ q) \<Longrightarrow> one_word p \<and> one_word q"
  by (induction p) (auto simp: trailing_one_word dest: trailing_spaces_append split: if_splits)

lemma one_word_concat: "one_word (concat ps) \<Longrightarrow> p \<in> set ps \<Longrightarrow> one_word p"
  by (induction ps) (auto dest: one_word_append)

lemma non_spaces_spaces: "list_all is_space s \<Longrightarrow> non_spaces s = []"
  by (induction s) (auto simp: non_spaces_def)

lemma rstrip_Cons:
  "rev (dropWhile is_space (rev (c # cs))) =
     (if list_all is_space cs then (if is_space c then [] else [c])
      else c # rev (dropWhile is_space (rev cs)))"
proof (cases "list_all is_space cs")
  case True
  then have "dropWhile is_space (rev cs @ [c]) = dropWhile is_space [c]"
    by (intro dropWhile_append2) (simp add: list_all_iff)
  with True show ?thesis by simp
next
  case False
  then obtain x where "x \<in> set (rev cs)" "\<not> is_space x"
    by (auto simp: list_all_iff)
  then have "dropWhile is_space (rev cs @ [c]) = dropWhile is_space (rev cs) @ [c]"
    by (rule dropWhile_append1)
  with False show ?thesis by simp
qed

lemma trailing_spaces_rstrip:
  "trailing_spaces s \<Longrightarrow> rev (dropWhile is_space (rev s)) = non_spaces s"
proof (induction s)
  case Nil
  then show ?case by (simp add: non_spaces_def)
next
  case (Cons c cs)
  show ?case
  proof (cases "is_space c")
    case True
    with Cons.prems have "list_all is_space (c # cs)" by simp
    then show ?thesis
      using non_spaces_spaces [of "c # cs"] by (simp add: rstrip_Cons del: rev.simps)
  next
    case False
    with Cons have "rev (dropWhile is_space (rev cs)) = non_spaces cs" by simp
    with False show ?thesis
      using non_spaces_spaces [of cs]
      by (simp add: rstrip_Cons non_spaces_def del: rev.simps)
  qed
qed

lemma one_word_strip: "one_word s \<Longrightarrow> strip s = non_spaces s"
proof (induction s)
  case Nil
  then show ?case by (simp add: strip_def non_spaces_def)
next
  case (Cons c cs)
  show ?case
  proof (cases "is_space c")
    case True
    with Cons show ?thesis by (simp add: strip_def non_spaces_def)
  next
    case False
    with Cons.prems have "trailing_spaces (c # cs)" by simp
    then have "rev (dropWhile is_space (rev (c # cs))) = non_spaces (c # cs)"
      by (rule trailing_spaces_rstrip)
    with False show ?thesis by (simp add: strip_def)
  qed
qed

lemma strip_split:
  "\<exists>a b. s = a @ strip s @ b \<and> list_all is_space a \<and> list_all is_space b"
proof -
  let ?t = "dropWhile is_space s"
  have "s = takeWhile is_space s @ ?t" by simp
  moreover have "?t = strip s @ rev (takeWhile is_space (rev ?t))"
  proof -
    have "?t = rev (rev ?t)" by simp
    also have "\<dots> = rev (takeWhile is_space (rev ?t) @ dropWhile is_space (rev ?t))"
      by (simp only: takeWhile_dropWhile_id)
    also have "\<dots> = rev (dropWhile is_space (rev ?t)) @ rev (takeWhile is_space (rev ?t))"
      by (rule rev_append)
    finally show ?thesis by (simp only: strip_def)
  qed
  moreover have "list_all is_space (takeWhile is_space s)"
    by (simp add: list_all_iff) (meson set_takeWhileD)
  moreover have "list_all is_space (rev (takeWhile is_space (rev ?t)))"
    by (simp add: list_all_iff) (meson set_takeWhileD)
  ultimately show ?thesis by metis
qed

lemma spaces_one_word: "list_all is_space a \<Longrightarrow> one_word (a @ s) = one_word s"
  by (induction a) auto

lemma word_trailing:
  "list_all (\<lambda>c. \<not> is_space c) m \<Longrightarrow> list_all is_space b \<Longrightarrow> trailing_spaces (m @ b)"
  by (induction m) (auto simp: spaces_trailing)

lemma strip_one_word:
  assumes "list_all (\<lambda>c. \<not> is_space c) (strip s)"
  shows "one_word s"
proof -
  obtain a b where s: "s = a @ strip s @ b" and a: "list_all is_space a" and b: "list_all is_space b"
    using strip_split by blast
  have "one_word (strip s @ b)"
    using word_trailing [OF assms b] by (rule trailing_one_word)
  then have "one_word (a @ strip s @ b)"
    using a by (simp add: spaces_one_word)
  then show ?thesis using s by simp
qed

lemma non_spaces_concat: "non_spaces (concat ps) = concat (map non_spaces ps)"
  by (induction ps) (simp_all add: non_spaces_def)

lemma concat_nonempty: "concat (filter (\<lambda>s. s \<noteq> []) xs) = concat xs"
  by (induction xs) auto

lemma get_text_strip_one_word:
  assumes "list_all (\<lambda>c. \<not> is_space c) (strip (concat (all_strings n)))"
  shows "get_text_strip n = strip (concat (all_strings n))"
proof -
  let ?ps = "all_strings n"
  have w: "one_word (concat ?ps)"
    using assms by (rule strip_one_word)
  have eq: "map strip ?ps = map non_spaces ?ps"
  proof (rule map_cong [OF refl])
    fix p
    assume "p \<in> set ?ps"
    then have "one_word p"
      by (rule one_word_concat [OF w])
    then show "strip p = non_spaces p"
      by (rule one_word_strip)
  qed
  have "get_text_strip n = concat (map non_spaces ?ps)"
    by (simp only: get_text_strip_def concat_nonempty eq)
  also have "\<dots> = non_spaces (concat ?ps)"
    by (simp only: non_spaces_concat)
  also have "\<dots> = strip (concat ?ps)"
    using w by (simp add: one_word_strip)
  finally show ?thesis .
qed

lemma except_request_exception_value:
  "except_request_exception r = Inr v \<Longrightarrow> r = Inr v"
  by (cases r rule: except_request_exception.cases) auto

lemma authenticate_try_never_False: "snd (authenticate_try net parser c) \<noteq> Inr False"
  by (auto simp: authenticate_try_def split: prod.splits sum.splits option.splits)

lemma authenticate_never_False: "fst (authenticate net parser c) \<noteq> Inr False"
proof
  assume "fst (authenticate net parser c) = Inr False"
  then have "except_request_exception (snd (authenticate_try net parser c)) = Inr False"
    by (simp add: authenticate_def split: prod.splits)
  then have "snd (authenticate_try net parser c) = Inr False"
    by (rule except_request_exception_value)
  then show False
    by (simp add: authenticate_try_never_False)
qed

lemmas fixture_defs =
  scripted_def ok_response_def parses_as_def document_def client0_def init_def new_session_def
  endswith_def

lemmas run_defs =
  authenticate_def authenticate_try_def session_get_def session_post_def send_def
  raise_for_status_def extract_csrf_token_def find_first_def find_all_def tag_matches_def
  attr_matches_def is_multi_valued_def login_form_marker_def



section \<open>Properties of the extraction helpers\<close>

lemma find_results_table:
  "find_first soup ''table'' [(''class'', ''table_results'')] =
     List.find is_results_table (descendants soup)"
  by (simp add: find_first_find tag_matches_class is_results_table_def cong: find_cong)

lemma find_by_name: "find_first n nm [] = List.find (is_tag nm) (descendants n)"
  by (simp add: find_first_find tag_matches_name cong: find_cong)

lemma find_all_by_name: "find_all n nm [] = filter (is_tag nm) (descendants n)"
  by (simp add: find_all_def tag_matches_name cong: filter_cong)

lemma find_all_column_headings:
  "find_all n ''th'' [(''class'', ''column_heading'')] = filter is_column_heading (descendants n)"
  by (simp add: find_all_def tag_matches_class is_column_heading_def cong: filter_cong)

lemma find_all_data_cells:
  "find_all n ''td'' [(''class'', ''data'')] = filter is_data_cell (descendants n)"
  by (simp add: find_all_def tag_matches_class is_data_cell_def cong: filter_cong)

lemma extract_headers_thead:
  assumes "List.find (is_tag ''thead'') (descendants t) = Some h"
  shows "extract_headers t =
           Inr (map (\<lambda>th. case map_of (attrs th) ''data-column'' of None \<Rightarrow> ''N/A'' | Some x \<Rightarrow> x)
                  (filter is_column_heading (descendants h)))"
  using assms
  by (simp add: extract_headers_def find_by_name find_all_column_headings get_attr_def)

lemma extract_table_data_tbody:
  assumes "List.find (is_tag ''tbody'') (descendants t) = Some b"
  shows "extract_table_data t =
           Inr (map (\<lambda>tr. map get_text_strip (filter is_data_cell (descendants tr)))
                  (filter (is_tag ''tr'') (descendants b)))"
  using assms
  by (simp add: extract_table_data_def find_by_name find_all_by_name find_all_data_cells)

lemma rows_stripped:
  assumes "map (\<lambda>tr. map (\<lambda>td. strip (concat (all_strings td)))
                   (filter is_data_cell (descendants tr))) trs = rows"
      and "list_all (list_all (list_all (\<lambda>c. \<not> is_space c))) rows"
  shows "map (\<lambda>tr. map get_text_strip (filter is_data_cell (descendants tr))) trs = rows"
proof -
  have cell: "get_text_strip td = strip (concat (all_strings td))"
    if "tr \<in> set trs" and "td \<in> set (filter is_data_cell (descendants tr))" for tr td
  proof -
    have "list_all (\<lambda>c. \<not> is_space c) (strip (concat (all_strings td)))"
      using assms(2) that unfolding assms(1) [symmetric] by (auto simp: list_all_iff)
    then show ?thesis by (rule get_text_strip_one_word)
  qed
  have "map (\<lambda>tr. map get_text_strip (filter is_data_cell (descendants tr))) trs =
      map (\<lambda>tr. map (\<lambda>td. strip (concat (all_strings td)))
                (filter is_data_cell (descendants tr))) trs"
    by (intro map_cong refl) (rule cell)
  then show ?thesis using assms(1) by simp
qed

lemma get_table_data_found:
  assumes "session_get net (session c) (base_url c @ ''index.php'')
             [(''route'', ''/sql''), (''db'', database), (''table'', table), (''pos'', ''0'')] 10
             = (s1, Inr r)"
      and "raise_for_status r = None"
      and "List.find is_results_table (descendants (parser (text r))) = Some t"
  shows "get_table_data net parser c database table =
           (case extract_headers t of
              Inl e \<Rightarrow> Inl e
            | Inr headers \<Rightarrow>
                (case extract_table_data t of
                   Inl e \<Rightarrow> Inl e
                 | Inr table_data \<Rightarrow> Inr (headers, table_data)),
            c\<lparr>session := s1\<rparr>)"
proof -
  have "get_table_data_try net parser c database table =
      (s1, case extract_headers t of
              Inl e \<Rightarrow> Inl e
            | Inr headers \<Rightarrow>
                (case extract_table_data t of
                   Inl e \<Rightarrow> Inl e
                 | Inr table_data \<Rightarrow> Inr (headers, table_data)))"
    using assms by (simp add: get_table_data_try_def find_results_table split: sum.splits)
  moreover have "except_request_exception x = x"
    if "x = (case extract_headers t of
              Inl e \<Rightarrow> Inl e
            | Inr headers \<Rightarrow>
                (case extract_table_data t of
                   Inl e \<Rightarrow> Inl e
                 | Inr table_data \<Rightarrow> Inr (headers, table_data)))" for x
    using that
    by (auto simp: extract_headers_def extract_table_data_def split: sum.splits option.splits)
  ultimately show ?thesis
    by (simp add: get_table_data_def)
qed





lemmas table_run_defs =
  get_table_data_def get_table_data_try_def session_get_def send_def raise_for_status_def
  extract_headers_def extract_table_data_def find_first_def find_all_def tag_matches_def
  attr_matches_def is_multi_valued_def get_attr_def get_text_strip_def all_strings_def
  split_ws_def is_space_def strip_def heading_def cell_def plain_heading_def



section \<open>Transport failures\<close>

lemma raise_for_status_error:
  "400 \<le> status_code r \<Longrightarrow> status_code r < 600 \<Longrightarrow> \<exists>m. raise_for_status r = Some (HTTPError m)"
  by (simp add: raise_for_status_def)

lemma raise_for_status_iff:
  "raise_for_status r = None \<longleftrightarrow> \<not> (400 \<le> status_code r \<and> status_code r < 600)"
  by (auto simp: raise_for_status_def)

lemma authenticate_get_fails:
  assumes "session_get net (session c) (base_url c) [] 10 = (s1, Inl e)"
  shows "fst (authenticate net parser c) = Inl (ConnectionError (''Connection error: '' @ exc_str e) e)"
  using assms by (simp add: authenticate_def authenticate_try_def)

lemma authenticate_get_status:
  assumes "session_get net (session c) (base_url c) [] 10 = (s1, Inr r1)"
      and "raise_for_status r1 = Some e"
  shows "fst (authenticate net parser c) = Inl (ConnectionError (''Connection error: '' @ exc_str e) e)"
  using assms by (simp add: authenticate_def authenticate_try_def)

lemma authenticate_post_fails:
  assumes "session_get net (session c) (base_url c) [] 10 = (s1, Inr r1)"
      and "raise_for_status r1 = None"
      and "extract_csrf_token (parser (text r1)) = Inr tok"
      and "session_post net s1 (base_url c @ ''index.php'')
             [(''pma_username'', username c), (''pma_password'', password c),
              (''server'', ''1''), (''token'', tok)] 10 = (s2, Inl e)"
  shows "fst (authenticate net parser c) = Inl (ConnectionError (''Connection error: '' @ exc_str e) e)"
  using assms by (simp add: authenticate_def authenticate_try_def)

lemma authenticate_post_status:
  assumes "session_get net (session c) (base_url c) [] 10 = (s1, Inr r1)"
      and "raise_for_status r1 = None"
      and "extract_csrf_token (parser (text r1)) = Inr tok"
      and "session_post net s1 (base_url c @ ''index.php'')
             [(''pma_username'', username c), (''pma_password'', password c),
              (''server'', ''1''), (''token'', tok)] 10 = (s2, Inr r2)"
      and "raise_for_status r2 = Some e"
  shows "fst (authenticate net parser c) = Inl (ConnectionError (''Connection error: '' @ exc_str e) e)"
  using assms by (simp add: authenticate_def authenticate_try_def)

lemma get_table_data_get_fails:
  assumes "session_get net (session c) (base_url c @ ''index.php'')
             [(''route'', ''/sql''), (''db'', database), (''table'', table), (''pos'', ''0'')] 10
             = (s1, Inl e)"
  shows "fst (get_table_data net parser c database table) =
           Inl (ConnectionError (''Connection error: '' @ exc_str e) e)"
  using assms by (simp add: get_table_data_def get_table_data_try_def)

lemma get_table_data_get_status:
  assumes "session_get net (session c) (base_url c @ ''index.php'')
             [(''route'', ''/sql''), (''db'', database), (''table'', table), (''pos'', ''0'')] 10
             = (s1, Inr r1)"
      and "raise_for_status r1 = Some e"
  shows "fst (get_table_data net parser c database table) =
           Inl (ConnectionError (''Connection error: '' @ exc_str e) e)"
  using assms by (simp add: get_table_data_def get_table_data_try_def)

lemma except_request_exception_not_raw: "except_request_exception r \<noteq> Inl (RequestException e)"
  by (cases r rule: except_request_exception.cases) auto

lemma authenticate_not_raw: "fst (authenticate net parser c) \<noteq> Inl (RequestException e)"
  by (simp add: authenticate_def except_request_exception_not_raw split: prod.splits)

lemma get_table_data_not_raw:
  "fst (get_table_data net parser c database table) \<noteq> Inl (RequestException e)"
  by (simp add: get_table_data_def except_request_exception_not_raw split: prod.splits)



section \<open>Authentication\<close>

text \<open>
  Claim C1, as amended. When the login page is fetched without a transport failure
  and the first \<^verbatim>\<open>input\<close> element named \<^verbatim>\<open>token\<close> of the page, in document
  order, carries the value \<open>tok\<close> (\<^verbatim>\<open>abc123\<close> in the fixture), \<^verbatim>\<open>authenticate\<close>
  makes exactly two requests: the GET of the base URL, then a POST to
  \<^verbatim>\<open>index.php\<close> whose body is \<^verbatim>\<open>pma_username\<close>, \<^verbatim>\<open>pma_password\<close>,
  \<^verbatim>\<open>server=1\<close> and \<^verbatim>\<open>token=tok\<close>.
\<close>

theorem authenticate_posts_first_token:
  assumes "session_get net (session c) (base_url c) [] 10 = (s1, Inr r1)"
      and "raise_for_status r1 = None"
      and "List.find is_token_input (descendants (parser (text r1))) = Some el"
      and "map_of (attrs el) ''value'' = Some tok"
  shows "issued (session (snd (authenticate net parser c))) =
           issued (session c) @
           [\<lparr>method = GET, url = base_url c, params = [], data = [], timeout = 10\<rparr>,
            \<lparr>method = POST, url = base_url c @ ''index.php'', params = [],
             data = [(''pma_username'', username c), (''pma_password'', password c),
                     (''server'', ''1''), (''token'', tok)],
             timeout = 10\<rparr>]"
proof -
  have tok: "extract_csrf_token (parser (text r1)) = Inr tok"
    using assms(3,4) by (rule extract_csrf_token_found)
  obtain r where
    "session_post net s1 (url (login_request c tok)) (data (login_request c tok)) 10
       = (session (snd (authenticate net parser c)), r)"
    using authenticate_posts [where parser = parser, OF assms(1,2) tok] by blast
  then have "issued (session (snd (authenticate net parser c))) =
      issued s1 @ [\<lparr>method = POST, url = url (login_request c tok), params = [],
                    data = data (login_request c tok), timeout = 10\<rparr>]"
    by (rule session_post_issued)
  then show ?thesis
    using session_get_issued [OF assms(1)] by (simp add: login_request_def)
qed

theorem authenticate_posts_first_token_witness:
  "issued (session (snd (authenticate
      (scripted [Inr (ok_response login_html), Inr (ok_response welcome_html)])
      (parses_as login_html login_soup) client0))) =
   [\<lparr>method = GET, url = ''http://pma.test/phpmyadmin/'', params = [], data = [], timeout = 10\<rparr>,
    \<lparr>method = POST, url = ''http://pma.test/phpmyadmin/index.php'', params = [],
     data = [(''pma_username'', ''test''), (''pma_password'', ''secret''),
             (''server'', ''1''), (''token'', ''abc123'')],
     timeout = 10\<rparr>]"
proof -
  let ?net = "scripted [Inr (ok_response login_html), Inr (ok_response welcome_html)]"
  let ?el = "Tag ''input'' [(''type'', ''hidden''), (''name'', ''token''), (''value'', ''abc123'')] []"
  have get: "session_get ?net (session client0) (base_url client0) [] 10 =
      (\<lparr>cookies = [], issued = [login_page_request client0]\<rparr>, Inr (ok_response login_html))"
    by (simp add: session_get_def send_def login_page_request_def fixture_defs)
  have ok: "raise_for_status (ok_response login_html) = None"
    by (simp add: raise_for_status_def ok_response_def)
  have el: "List.find is_token_input
      (descendants (parses_as login_html login_soup (text (ok_response login_html)))) = Some ?el"
    by (simp add: fixture_defs login_soup_def is_token_input_def)
  have v: "map_of (attrs ?el) ''value'' = Some ''abc123''"
    by simp
  show ?thesis
    using authenticate_posts_first_token
      [where parser = "parses_as login_html login_soup", OF get ok el v]
    by (simp add: fixture_defs)
qed

text \<open>
  Claim C1 as stated fails on a page with two inputs named \<^verbatim>\<open>token\<close>: an input
  of value \<^verbatim>\<open>abc123\<close> is on the page, and the POST carries the value of the
  earlier input.
\<close>

theorem authenticate_later_token_counterexample:
  "list_ex (\<lambda>n. is_token_input n \<and> map_of (attrs n) ''value'' = Some ''abc123'')
     (descendants (parses_as two_token_html two_token_soup two_token_html)) \<and>
   map data (filter is_post (issued (session (snd (authenticate
      (scripted [Inr (ok_response two_token_html), Inr (ok_response welcome_html)])
      (parses_as two_token_html two_token_soup) client0))))) =
   [[(''pma_username'', ''test''), (''pma_password'', ''secret''),
     (''server'', ''1''), (''token'', ''stale0'')]]"
  by (simp add: fixture_defs run_defs two_token_soup_def two_token_html_def welcome_html_def
        is_token_input_def is_post_def)



text \<open>
  Claim C3. When the token is found and neither request meets a transport failure
  or an error status, \<^verbatim>\<open>authenticate\<close> raises \<open>AuthenticationError\<close> exactly when
  the body of the POST response has \<^verbatim>\<open>name="login_form"\<close> as a substring, and
  returns \<open>True\<close> otherwise. Whatever the network, the parser and the client are, it
  never returns \<open>False\<close>.
\<close>

theorem authenticate_outcome:
  assumes "session_get net (session c) (base_url c) [] 10 = (s1, Inr r1)"
      and "raise_for_status r1 = None"
      and "List.find is_token_input (descendants (parser (text r1))) = Some el"
      and "map_of (attrs el) ''value'' = Some tok"
      and "session_post net s1 (base_url c @ ''index.php'')
             [(''pma_username'', username c), (''pma_password'', password c),
              (''server'', ''1''), (''token'', tok)] 10 = (s2, Inr r2)"
      and "raise_for_status r2 = None"
  shows "fst (authenticate net parser c) =
           (if sublist login_form_marker (text r2)
            then Inl (AuthenticationError ''Login failed. Check credentials.'')
            else Inr True) \<and>
         (\<forall>net' parser' c'. fst (authenticate net' parser' c') \<noteq> Inr False)"
proof -
  have tok: "extract_csrf_token (parser (text r1)) = Inr tok"
    using assms(3,4) by (rule extract_csrf_token_found)
  have post: "session_post net s1 (url (login_request c tok)) (data (login_request c tok)) 10
      = (s2, Inr r2)"
    using assms(5) by (simp add: login_request_def)
  show ?thesis
    using authenticate_answered [where parser = parser, OF assms(1,2) tok post assms(6)]
    by (simp add: contains_sublist authenticate_never_False)
qed

theorem authenticate_outcome_witness:
  "fst (authenticate (scripted [Inr (ok_response login_html), Inr (ok_response rejected_html)])
          (parses_as login_html login_soup) client0) =
     Inl (AuthenticationError ''Login failed. Check credentials.'') \<and>
   fst (authenticate (scripted [Inr (ok_response login_html), Inr (ok_response welcome_html)])
          (parses_as login_html login_soup) client0) = Inr True"
proof -
  let ?el = "Tag ''input'' [(''type'', ''hidden''), (''name'', ''token''), (''value'', ''abc123'')] []"
  let ?s1 = "\<lparr>cookies = [], issued = [login_page_request client0]\<rparr>"
  have ok: "raise_for_status (ok_response t) = None" for t
    by (simp add: raise_for_status_def ok_response_def)
  have el: "List.find is_token_input
      (descendants (parses_as login_html login_soup (text (ok_response login_html)))) = Some ?el"
    by (simp add: fixture_defs login_soup_def is_token_input_def)
  have v: "map_of (attrs ?el) ''value'' = Some ''abc123''"
    by simp
  have get: "session_get (scripted [Inr (ok_response login_html), Inr (ok_response t)])
      (session client0) (base_url client0) [] 10 = (?s1, Inr (ok_response login_html))" for t
    by (simp add: session_get_def send_def login_page_request_def fixture_defs)
  have post: "session_post (scripted [Inr (ok_response login_html), Inr (ok_response t)]) ?s1
      (base_url client0 @ ''index.php'')
      [(''pma_username'', username client0), (''pma_password'', password client0),
       (''server'', ''1''), (''token'', ''abc123'')] 10 =
      (\<lparr>cookies = [], issued = [login_page_request client0, login_request client0 ''abc123'']\<rparr>,
       Inr (ok_response t))" for t
    by (simp add: session_post_def send_def login_page_request_def login_request_def fixture_defs)
  have rejected: "sublist login_form_marker (text (ok_response rejected_html))"
    unfolding contains_sublist [symmetric]
    by (simp add: login_form_marker_def rejected_html_def ok_response_def)
  have accepted: "\<not> sublist login_form_marker (text (ok_response welcome_html))"
    unfolding contains_sublist [symmetric]
    by (simp add: login_form_marker_def welcome_html_def ok_response_def)
  show ?thesis
    using authenticate_outcome
        [where parser = "parses_as login_html login_soup", OF get ok el v post ok, of rejected_html]
      authenticate_outcome
        [where parser = "parses_as login_html login_soup", OF get ok el v post ok, of welcome_html]
      rejected accepted
    by simp
qed

text \<open>
  Claim C10, as amended. When the login page is fetched without a transport failure
  and its first \<^verbatim>\<open>input\<close> element named \<^verbatim>\<open>token\<close>, in document order, has no
  \<^verbatim>\<open>value\<close> attribute, \<^verbatim>\<open>authenticate\<close> raises the same \<open>AuthenticationError\<close>
  as when no such input exists, and the only request it has made is the GET of the
  base URL.
\<close>

theorem authenticate_first_token_without_value:
  assumes "session_get net (session c) (base_url c) [] 10 = (s1, Inr r1)"
      and "raise_for_status r1 = None"
      and "List.find is_token_input (descendants (parser (text r1))) = Some el"
      and "map_of (attrs el) ''value'' = None"
  shows "fst (authenticate net parser c) =
           Inl (AuthenticationError ''Could not find CSRF token on login page.'') \<and>
         issued (session (snd (authenticate net parser c))) =
           issued (session c) @
           [\<lparr>method = GET, url = base_url c, params = [], data = [], timeout = 10\<rparr>]"
proof -
  have "extract_csrf_token (parser (text r1)) =
      Inl (AuthenticationError ''Could not find CSRF token on login page.'')"
    using assms(3,4) by (rule extract_csrf_token_no_value)
  then have "authenticate net parser c =
      (Inl (AuthenticationError ''Could not find CSRF token on login page.''), c\<lparr>session := s1\<rparr>)"
    using authenticate_token_error [where parser = parser, OF assms(1,2)] by simp
  then show ?thesis
    using session_get_issued [OF assms(1)] by simp
qed

theorem authenticate_first_token_without_value_witness:
  "fst (authenticate (scripted [Inr (ok_response bare_token_html), Inr (ok_response welcome_html)])
          (parses_as bare_token_html bare_token_soup) client0) =
     Inl (AuthenticationError ''Could not find CSRF token on login page.'') \<and>
   issued (session (snd (authenticate
       (scripted [Inr (ok_response bare_token_html), Inr (ok_response welcome_html)])
       (parses_as bare_token_html bare_token_soup) client0))) =
     [\<lparr>method = GET, url = ''http://pma.test/phpmyadmin/'', params = [], data = [], timeout = 10\<rparr>]"
proof -
  let ?net = "scripted [Inr (ok_response bare_token_html), Inr (ok_response welcome_html)]"
  let ?el = "Tag ''input'' [(''type'', ''hidden''), (''name'', ''token'')] []"
  have get: "session_get ?net (session client0) (base_url client0) [] 10 =
      (\<lparr>cookies = [], issued = [login_page_request client0]\<rparr>, Inr (ok_response bare_token_html))"
    by (simp add: session_get_def send_def login_page_request_def fixture_defs)
  have ok: "raise_for_status (ok_response bare_token_html) = None"
    by (simp add: raise_for_status_def ok_response_def)
  have el: "List.find is_token_input
      (descendants (parses_as bare_token_html bare_token_soup (text (ok_response bare_token_html))))
      = Some ?el"
    by (simp add: fixture_defs bare_token_soup_def is_token_input_def)
  have v: "map_of (attrs ?el) ''value'' = None"
    by simp
  show ?thesis
    using authenticate_first_token_without_value
      [where parser = "parses_as bare_token_html bare_token_soup", OF get ok el v]
    by (simp add: fixture_defs)
qed

text \<open>
  Claim C10 as stated fails on a page whose first input named \<^verbatim>\<open>token\<close> has a
  value and whose second has none: an input named \<^verbatim>\<open>token\<close> without a value is on
  the page, and \<^verbatim>\<open>authenticate\<close> makes the POST and returns \<open>True\<close>.
\<close>

theorem authenticate_later_bare_token_counterexample:
  "list_ex (\<lambda>n. is_token_input n \<and> map_of (attrs n) ''value'' = None)
     (descendants (parses_as second_bare_html second_bare_soup second_bare_html)) \<and>
   fst (authenticate
      (scripted [Inr (ok_response second_bare_html), Inr (ok_response welcome_html)])
      (parses_as second_bare_html second_bare_soup) client0) = Inr True \<and>
   map data (filter is_post (issued (session (snd (authenticate
      (scripted [Inr (ok_response second_bare_html), Inr (ok_response welcome_html)])
      (parses_as second_bare_html second_bare_soup) client0))))) =
   [[(''pma_username'', ''test''), (''pma_password'', ''secret''),
     (''server'', ''1''), (''token'', ''abc123'')]]"
  by (simp add: fixture_defs run_defs second_bare_soup_def second_bare_html_def welcome_html_def
        is_token_input_def is_post_def)


section \<open>Table data\<close>

text \<open>
  Claim C4, as amended. Let the results page be fetched without a transport failure,
  and let \<open>t\<close> be its first \<^verbatim>\<open>table\<close> element of class \<^verbatim>\<open>table_results\<close> in
  document order, \<open>h\<close> the first \<^verbatim>\<open>thead\<close> below \<open>t\<close> and \<open>b\<close> the first
  \<^verbatim>\<open>tbody\<close> below \<open>t\<close>. When the \<^verbatim>\<open>th\<close> cells of class \<^verbatim>\<open>column_heading\<close>
  below \<open>h\<close> have the \<^verbatim>\<open>data-column\<close> attributes \<open>hs\<close>, and the \<^verbatim>\<open>td\<close> cells
  of class \<^verbatim>\<open>data\<close> of the \<^verbatim>\<open>tr\<close> rows below \<open>b\<close> have the texts \<open>rows\<close> once
  stripped of surrounding whitespace, none with whitespace inside, then
  \<^verbatim>\<open>get_table_data\<close> returns the headers \<open>hs\<close>, with \<^verbatim>\<open>N/A\<close> where the
  attribute is absent, and the rows \<open>rows\<close>, all in document order. The text of a
  cell is what its text nodes hold, one after the other. The fixture has the headers
  \<^verbatim>\<open>id\<close>, \<^verbatim>\<open>name\<close> and the rows \<^verbatim>\<open>1, alice\<close> and \<^verbatim>\<open>2, bob\<close>.
\<close>

theorem get_table_data_first_grid:
  assumes "session_get net (session c) (base_url c @ ''index.php'')
             [(''route'', ''/sql''), (''db'', database), (''table'', table), (''pos'', ''0'')] 10
             = (s1, Inr r)"
      and "raise_for_status r = None"
      and "List.find is_results_table (descendants (parser (text r))) = Some t"
      and "List.find (is_tag ''thead'') (descendants t) = Some h"
      and "map (\<lambda>th. map_of (attrs th) ''data-column'') (filter is_column_heading (descendants h)) = hs"
      and "List.find (is_tag ''tbody'') (descendants t) = Some b"
      and "map (\<lambda>tr. map (\<lambda>td. strip (concat (all_strings td)))
                     (filter is_data_cell (descendants tr)))
             (filter (is_tag ''tr'') (descendants b)) = rows"
      and "list_all (list_all (list_all (\<lambda>c. \<not> is_space c))) rows"
  shows "fst (get_table_data net parser c database table) =
           Inr (map (\<lambda>col. case col of None \<Rightarrow> ''N/A'' | Some x \<Rightarrow> x) hs, rows)"
proof -
  have hd: "extract_headers t =
      Inr (map (\<lambda>col. case col of None \<Rightarrow> ''N/A'' | Some x \<Rightarrow> x) hs)"
    using extract_headers_thead [OF assms(4)] assms(5) by (auto simp: comp_def)
  have bd: "extract_table_data t = Inr rows"
    using extract_table_data_tbody [OF assms(6)] rows_stripped [OF assms(7,8)] by simp
  show ?thesis
    using get_table_data_found [where parser = parser, OF assms(1,2,3)] hd bd by simp
qed

theorem get_table_data_first_grid_witness:
  "fst (get_table_data (scripted [Inr (ok_response results_html)])
          (parses_as results_html results_soup) client0 ''testDB'' ''users'') =
     Inr ([''id'', ''name''], [[''1'', ''alice''], [''2'', ''bob'']]) \<and>
   fst (get_table_data (scripted [Inr (ok_response other_grid_html)])
          (parses_as other_grid_html (document [other_grid])) client0 ''testDB'' ''users'') =
     Inr ([''N/A''], [[''9'']])"
proof -
  let ?rq = "[(''route'', ''/sql''), (''db'', ''testDB''), (''table'', ''users''), (''pos'', ''0'')]"
  have get: "session_get (scripted [Inr (ok_response t)]) (session client0)
      (base_url client0 @ ''index.php'') ?rq 10 =
      (\<lparr>cookies = [], issued = [table_request client0 ''testDB'' ''users'']\<rparr>,
       Inr (ok_response t))" for t
    by (simp add: session_get_def send_def table_request_def fixture_defs)
  have ok: "raise_for_status (ok_response t) = None" for t
    by (simp add: raise_for_status_def ok_response_def)
  have cls: "split_ws ''table_results data ajax'' = [''table_results'', ''data'', ''ajax'']"
      "split_ws ''draggable column_heading'' = [''draggable'', ''column_heading'']"
      "split_ws ''table_results'' = [''table_results'']"
      "split_ws ''column_heading'' = [''column_heading'']"
      "split_ws ''data'' = [''data'']"
    by (simp_all add: split_ws_def is_space_def)
  have sp: "strip '' 1 '' = ''1''" "strip ''alice'' = ''alice''" "strip ''2'' = ''2''"
      "strip '' bob  '' = ''bob''" "strip [CHR 0xA0, CHR ''9'', CHR 0xA0] = ''9''"
    by (simp_all add: strip_def is_space_def)
  have t: "List.find is_results_table
      (descendants (parses_as results_html results_soup (text (ok_response results_html))))
      = Some results_grid"
    by (simp add: fixture_defs results_soup_def results_grid_def is_results_table_def
          has_class_def cls)
  have h: "List.find (is_tag ''thead'') (descendants results_grid) = Some results_thead"
    by (simp add: results_grid_def results_thead_def)
  have hs: "map (\<lambda>th. map_of (attrs th) ''data-column'')
      (filter is_column_heading (descendants results_thead)) = [Some ''id'', Some ''name'']"
    by (simp add: results_thead_def heading_def is_column_heading_def has_class_def cls)
  have b: "List.find (is_tag ''tbody'') (descendants results_grid) = Some results_tbody"
    by (simp add: results_grid_def results_thead_def results_tbody_def heading_def)
  have rows: "map (\<lambda>tr. map (\<lambda>td. strip (concat (all_strings td)))
                     (filter is_data_cell (descendants tr)))
      (filter (is_tag ''tr'') (descendants results_tbody)) =
      [[''1'', ''alice''], [''2'', ''bob'']]"
    by (simp add: results_tbody_def cell_def is_data_cell_def has_class_def cls all_strings_def sp)
  have solid: "list_all (list_all (list_all (\<lambda>c. \<not> is_space c)))
      [[''1'', ''alice''], [''2'', ''bob'']]"
    by (simp add: is_space_def)
  let ?thead' = "Tag ''thead'' [] [Tag ''tr'' [] [plain_heading ''count'']]"
  let ?tbody' = "Tag ''tbody'' []
          [Tag ''tr'' []
             [Tag ''td'' [(''class'', ''data'')]
                [Comment '' n '', NavigableString [CHR 0xA0, CHR ''9'', CHR 0xA0]]]]"
  have t': "List.find is_results_table
      (descendants (parses_as other_grid_html (document [other_grid])
         (text (ok_response other_grid_html)))) = Some other_grid"
    by (simp add: fixture_defs other_grid_def is_results_table_def has_class_def cls)
  have h': "List.find (is_tag ''thead'') (descendants other_grid) = Some ?thead'"
    by (simp add: other_grid_def)
  have hs': "map (\<lambda>th. map_of (attrs th) ''data-column'')
      (filter is_column_heading (descendants ?thead')) = [None]"
    by (simp add: plain_heading_def is_column_heading_def has_class_def cls)
  have b': "List.find (is_tag ''tbody'') (descendants other_grid) = Some ?tbody'"
    by (simp add: other_grid_def plain_heading_def)
  have rows': "map (\<lambda>tr. map (\<lambda>td. strip (concat (all_strings td)))
                     (filter is_data_cell (descendants tr)))
      (filter (is_tag ''tr'') (descendants ?tbody')) = [[''9'']]"
    by (simp add: is_data_cell_def has_class_def cls all_strings_def sp)
  have solid': "list_all (list_all (list_all (\<lambda>c. \<not> is_space c))) [[''9'']]"
    by (simp add: is_space_def)
  show ?thesis
    using get_table_data_first_grid
        [where parser = "parses_as results_html results_soup", OF get ok t h hs b rows solid]
      get_table_data_first_grid
        [where parser = "parses_as other_grid_html (document [other_grid])",
         OF get ok t' h' hs' b' rows' solid']
    by simp
qed

text \<open>
  Claim C4 as stated fails on three pages. On a page with two tables of class
  \<^verbatim>\<open>table_results\<close>, the table of the fixture is on the page, and
  \<^verbatim>\<open>get_table_data\<close> returns the contents of the table before it. On a page whose
  table has two \<^verbatim>\<open>tbody\<close> elements, the second with the rows of the fixture, it
  returns the row of the first. On a page whose table has two \<^verbatim>\<open>thead\<close>
  elements, the second with the headings of the fixture, it returns the heading of the
  first.
\<close>

theorem get_table_data_second_grid_counterexample:
  "list_ex (\<lambda>n. n = results_grid)
     (descendants (parses_as two_grids_html two_grids_soup two_grids_html)) \<and>
   fst (get_table_data (scripted [Inr (ok_response two_grids_html)])
          (parses_as two_grids_html two_grids_soup) client0 ''testDB'' ''users'') =
     Inr ([''N/A''], [[''9'']]) \<and>
   list_ex (\<lambda>n. n = results_thead)
     (descendants (parses_as two_tbody_html two_tbody_soup two_tbody_html)) \<and>
   list_ex (\<lambda>n. n = results_tbody)
     (descendants (parses_as two_tbody_html two_tbody_soup two_tbody_html)) \<and>
   fst (get_table_data (scripted [Inr (ok_response two_tbody_html)])
          (parses_as two_tbody_html two_tbody_soup) client0 ''testDB'' ''users'') =
     Inr ([''id'', ''name''], [[''x'']]) \<and>
   list_ex (\<lambda>n. n = results_thead)
     (descendants (parses_as two_thead_html two_thead_soup two_thead_html)) \<and>
   list_ex (\<lambda>n. n = results_tbody)
     (descendants (parses_as two_thead_html two_thead_soup two_thead_html)) \<and>
   fst (get_table_data (scripted [Inr (ok_response two_thead_html)])
          (parses_as two_thead_html two_thead_soup) client0 ''testDB'' ''users'') =
     Inr ([''k''], [[''1'', ''alice''], [''2'', ''bob'']])"
proof -
  have "list_ex (\<lambda>n. n = results_grid)
     (descendants (parses_as two_grids_html two_grids_soup two_grids_html))"
    by (simp add: parses_as_def document_def two_grids_soup_def)
  moreover have "fst (get_table_data (scripted [Inr (ok_response two_grids_html)])
          (parses_as two_grids_html two_grids_soup) client0 ''testDB'' ''users'') =
     Inr ([''N/A''], [[''9'']])"
    by (simp add: fixture_defs table_run_defs two_grids_soup_def other_grid_def)
  moreover have "list_ex (\<lambda>n. n = results_thead)
     (descendants (parses_as two_tbody_html two_tbody_soup two_tbody_html))"
    by (simp add: parses_as_def document_def two_tbody_soup_def)
  moreover have "list_ex (\<lambda>n. n = results_tbody)
     (descendants (parses_as two_tbody_html two_tbody_soup two_tbody_html))"
    by (simp add: parses_as_def document_def two_tbody_soup_def)
  moreover have "fst (get_table_data (scripted [Inr (ok_response two_tbody_html)])
          (parses_as two_tbody_html two_tbody_soup) client0 ''testDB'' ''users'') =
     Inr ([''id'', ''name''], [[''x'']])"
    by (simp add: fixture_defs table_run_defs two_tbody_soup_def results_thead_def
          results_tbody_def)
  moreover have "list_ex (\<lambda>n. n = results_thead)
     (descendants (parses_as two_thead_html two_thead_soup two_thead_html))"
    by (simp add: parses_as_def document_def two_thead_soup_def)
  moreover have "list_ex (\<lambda>n. n = results_tbody)
     (descendants (parses_as two_thead_html two_thead_soup two_thead_html))"
    by (simp add: parses_as_def document_def two_thead_soup_def)
  moreover have "fst (get_table_data (scripted [Inr (ok_response two_thead_html)])
          (parses_as two_thead_html two_thead_soup) client0 ''testDB'' ''users'') =
     Inr ([''k''], [[''1'', ''alice''], [''2'', ''bob'']])"
    by (simp add: fixture_defs table_run_defs two_thead_soup_def results_thead_def
          results_tbody_def)
  ultimately show ?thesis
    by (intro conjI)
qed



text \<open>
  Claim C7. There is a page with a table of class \<^verbatim>\<open>table_results\<close> and no
  \<^verbatim>\<open>thead\<close>, and one with such a table and no \<^verbatim>\<open>tbody\<close>, on which
  \<^verbatim>\<open>get_table_data\<close> neither returns nor raises one of \<open>AuthenticationError\<close>,
  \<open>TableDataError\<close> and \<open>ConnectionError\<close>: the \<open>AttributeError\<close> of the
  extraction helper reaches the caller.
\<close>

theorem get_table_data_missing_section:
  "list_ex (has_class ''table_results'') (descendants no_thead_soup) \<and>
   list_all (\<lambda>n. \<not> is_tag ''thead'' n) (descendants no_thead_soup) \<and>
   fst (get_table_data (scripted [Inr (ok_response no_thead_html)])
          (parses_as no_thead_html no_thead_soup) client0 ''testDB'' ''users'') =
     Inl (AttributeError ''find_all'') \<and>
   list_ex (has_class ''table_results'') (descendants no_tbody_soup) \<and>
   list_all (\<lambda>n. \<not> is_tag ''tbody'' n) (descendants no_tbody_soup) \<and>
   fst (get_table_data (scripted [Inr (ok_response no_tbody_html)])
          (parses_as no_tbody_html no_tbody_soup) client0 ''testDB'' ''users'') =
     Inl (AttributeError ''find_all'')"
  by (simp add: fixture_defs table_run_defs no_thead_soup_def no_tbody_soup_def has_class_def)

text \<open>
  Claim C9. There is a page with a table of class \<^verbatim>\<open>table_results\<close> on which
  \<^verbatim>\<open>get_table_data\<close> returns, without an error, two headers with a row of one cell
  and a row of three cells: no row has the length of the header list, and the rows
  differ in length.
\<close>

theorem get_table_data_ragged_rows:
  "\<exists>hs rows.
     fst (get_table_data (scripted [Inr (ok_response ragged_html)])
            (parses_as ragged_html ragged_soup) client0 ''testDB'' ''users'') = Inr (hs, rows) \<and>
     list_ex (has_class ''table_results'') (descendants ragged_soup) \<and>
     length hs = 2 \<and> map length rows = [1, 3]"
proof -
  have "fst (get_table_data (scripted [Inr (ok_response ragged_html)])
          (parses_as ragged_html ragged_soup) client0 ''testDB'' ''users'') =
     Inr ([''id'', ''name''], [[''1''], [''2'', ''bob'', ''extra'']])"
    by (simp add: fixture_defs table_run_defs ragged_soup_def)
  moreover have "list_ex (has_class ''table_results'') (descendants ragged_soup)"
    by (simp add: fixture_defs ragged_soup_def has_class_def split_ws_def is_space_def)
  ultimately show ?thesis
    by simp
qed


section \<open>Failures of the transport, and the frame\<close>

text \<open>
  Claim C6. Every transport failure during \<^verbatim>\<open>authenticate\<close> (the GET or the POST
  fails, or its response has an error status, which \<^verbatim>\<open>raise_for_status\<close> turns
  into an \<open>HTTPError\<close>: every status from 400 to 599) and during
  \<^verbatim>\<open>get_table_data\<close> (the same for its GET) reaches the caller as a
  \<open>ConnectionError\<close> whose cause is that failure \<open>e\<close> and whose message ends with
  the message of \<open>e\<close>. Neither operation ever ends with the transport exception
  itself.
\<close>

theorem transport_failure_is_connection_error:
  "(session_get net (session c) (base_url c) [] 10 = (s1, Inl e) \<longrightarrow>
      fst (authenticate net parser c) =
        Inl (ConnectionError (''Connection error: '' @ exc_str e) e)) \<and>
   (session_get net (session c) (base_url c) [] 10 = (s1, Inr r1) \<and>
    raise_for_status r1 = Some e \<longrightarrow>
      fst (authenticate net parser c) =
        Inl (ConnectionError (''Connection error: '' @ exc_str e) e)) \<and>
   (session_get net (session c) (base_url c) [] 10 = (s1, Inr r1) \<and>
    raise_for_status r1 = None \<and>
    extract_csrf_token (parser (text r1)) = Inr tok \<and>
    session_post net s1 (base_url c @ ''index.php'')
      [(''pma_username'', username c), (''pma_password'', password c),
       (''server'', ''1''), (''token'', tok)] 10 = (s2, Inl e) \<longrightarrow>
      fst (authenticate net parser c) =
        Inl (ConnectionError (''Connection error: '' @ exc_str e) e)) \<and>
   (session_get net (session c) (base_url c) [] 10 = (s1, Inr r1) \<and>
    raise_for_status r1 = None \<and>
    extract_csrf_token (parser (text r1)) = Inr tok \<and>
    session_post net s1 (base_url c @ ''index.php'')
      [(''pma_username'', username c), (''pma_password'', password c),
       (''server'', ''1''), (''token'', tok)] 10 = (s2, Inr r2) \<and>
    raise_for_status r2 = Some e \<longrightarrow>
      fst (authenticate net parser c) =
        Inl (ConnectionError (''Connection error: '' @ exc_str e) e)) \<and>
   (session_get net (session c) (base_url c @ ''index.php'')
      [(''route'', ''/sql''), (''db'', database), (''table'', table), (''pos'', ''0'')] 10
      = (s1, Inl e) \<longrightarrow>
      fst (get_table_data net parser c database table) =
        Inl (ConnectionError (''Connection error: '' @ exc_str e) e)) \<and>
   (session_get net (session c) (base_url c @ ''index.php'')
      [(''route'', ''/sql''), (''db'', database), (''table'', table), (''pos'', ''0'')] 10
      = (s1, Inr r1) \<and>
    raise_for_status r1 = Some e \<longrightarrow>
      fst (get_table_data net parser c database table) =
        Inl (ConnectionError (''Connection error: '' @ exc_str e) e)) \<and>
   (400 \<le> status_code r1 \<and> status_code r1 < 600 \<longrightarrow>
      (\<exists>m. raise_for_status r1 = Some (HTTPError m))) \<and>
   fst (authenticate net parser c) \<noteq> Inl (RequestException e) \<and>
   fst (get_table_data net parser c database table) \<noteq> Inl (RequestException e)"
proof (intro conjI impI)
  show "fst (authenticate net parser c) \<noteq> Inl (RequestException e)"
    by (rule authenticate_not_raw)
  show "fst (get_table_data net parser c database table) \<noteq> Inl (RequestException e)"
    by (rule get_table_data_not_raw)
qed (blast intro: authenticate_get_fails authenticate_get_status authenticate_post_fails
       authenticate_post_status get_table_data_get_fails get_table_data_get_status
       raise_for_status_error)+


theorem transport_failure_is_connection_error_witness:
  "fst (authenticate (scripted [Inl (ConnectionRefused ''Connection refused'')])
          (parses_as login_html login_soup) client0) =
     Inl (ConnectionError ''Connection error: Connection refused''
            (ConnectionRefused ''Connection refused'')) \<and>
   fst (authenticate
          (scripted [Inr (error_response 503 ''Service Unavailable'' ''http://pma.test/phpmyadmin/'')])
          (parses_as login_html login_soup) client0) =
     Inl (ConnectionError
            ''Connection error: 503 Server Error: Service Unavailable for url: http://pma.test/phpmyadmin/''
            (HTTPError ''503 Server Error: Service Unavailable for url: http://pma.test/phpmyadmin/'')) \<and>
   fst (authenticate (scripted [Inr (ok_response login_html), Inl (ReadTimeout ''Read timed out.'')])
          (parses_as login_html login_soup) client0) =
     Inl (ConnectionError ''Connection error: Read timed out.'' (ReadTimeout ''Read timed out.'')) \<and>
   fst (authenticate
          (scripted [Inr (ok_response login_html),
                     Inr (error_response 403 ''Forbidden'' ''http://pma.test/phpmyadmin/index.php'')])
          (parses_as login_html login_soup) client0) =
     Inl (ConnectionError
            ''Connection error: 403 Client Error: Forbidden for url: http://pma.test/phpmyadmin/index.php''
            (HTTPError ''403 Client Error: Forbidden for url: http://pma.test/phpmyadmin/index.php'')) \<and>
   fst (get_table_data (scripted [Inl (NameResolutionError ''Name or service not known'')])
          (parses_as results_html results_soup) client0 ''testDB'' ''users'') =
     Inl (ConnectionError ''Connection error: Name or service not known''
            (NameResolutionError ''Name or service not known'')) \<and>
   fst (get_table_data
          (scripted [Inr (error_response 500 ''Internal Server Error''
                            ''http://pma.test/phpmyadmin/index.php'')])
          (parses_as results_html results_soup) client0 ''testDB'' ''users'') =
     Inl (ConnectionError
            ''Connection error: 500 Server Error: Internal Server Error for url: http://pma.test/phpmyadmin/index.php''
            (HTTPError ''500 Server Error: Internal Server Error for url: http://pma.test/phpmyadmin/index.php''))"
proof -
  let ?p = "parses_as login_html login_soup"
  let ?q = "parses_as results_html results_soup"
  let ?s1 = "\<lparr>cookies = [], issued = [login_page_request client0]\<rparr>"
  let ?s2 = "\<lparr>cookies = [], issued = [login_page_request client0, login_request client0 ''abc123'']\<rparr>"
  let ?t1 = "\<lparr>cookies = [], issued = [table_request client0 ''testDB'' ''users'']\<rparr>"
  let ?params = "[(''route'', ''/sql''), (''db'', ''testDB''), (''table'', ''users''), (''pos'', ''0'')]"
  let ?form = "[(''pma_username'', username client0), (''pma_password'', password client0),
       (''server'', ''1''), (''token'', ''abc123'')]"
  have get: "session_get (scripted (x # xs)) (session client0) (base_url client0) [] 10 = (?s1, x)"
    for x xs
    by (simp add: session_get_def send_def login_page_request_def fixture_defs)
  have post: "session_post (scripted [x, y]) ?s1 (base_url client0 @ ''index.php'') ?form 10 = (?s2, y)"
    for x y
    by (simp add: session_post_def send_def login_page_request_def login_request_def fixture_defs)
  have tget: "session_get (scripted [x]) (session client0) (base_url client0 @ ''index.php'')
      ?params 10 = (?t1, x)" for x
    by (simp add: session_get_def send_def table_request_def fixture_defs)
  have ok: "raise_for_status (ok_response t) = None" for t
    by (simp add: raise_for_status_def ok_response_def)
  have e503: "raise_for_status (error_response 503 ''Service Unavailable'' u) =
      Some (HTTPError (''503 Server Error: Service Unavailable for url: '' @ u))" for u
    by (simp add: raise_for_status_def error_response_def digit_char_def)
  have e403: "raise_for_status (error_response 403 ''Forbidden'' u) =
      Some (HTTPError (''403 Client Error: Forbidden for url: '' @ u))" for u
    by (simp add: raise_for_status_def error_response_def digit_char_def)
  have e500: "raise_for_status (error_response 500 ''Internal Server Error'' u) =
      Some (HTTPError (''500 Server Error: Internal Server Error for url: '' @ u))" for u
    by (simp add: raise_for_status_def error_response_def digit_char_def)
  have tok: "extract_csrf_token (?p (text (ok_response login_html))) = Inr ''abc123''"
    by (simp add: fixture_defs run_defs login_soup_def)
  note T = transport_failure_is_connection_error
  have 1: "fst (authenticate (scripted [Inl (ConnectionRefused ''Connection refused'')]) ?p client0) =
      Inl (ConnectionError (''Connection error: '' @ exc_str (ConnectionRefused ''Connection refused''))
             (ConnectionRefused ''Connection refused''))"
    using T [where net = "scripted [Inl (ConnectionRefused ''Connection refused'')]"
        and c = client0 and ?s1.0 = ?s1 and e = "ConnectionRefused ''Connection refused''"
        and parser = ?p] get
    by blast
  have 2: "fst (authenticate
      (scripted [Inr (error_response 503 ''Service Unavailable'' ''http://pma.test/phpmyadmin/'')])
      ?p client0) =
      Inl (ConnectionError
             (''Connection error: '' @ exc_str
                (HTTPError (''503 Server Error: Service Unavailable for url: '' @
                            ''http://pma.test/phpmyadmin/'')))
             (HTTPError (''503 Server Error: Service Unavailable for url: '' @
                         ''http://pma.test/phpmyadmin/'')))"
    using T [where net = "scripted [Inr (error_response 503 ''Service Unavailable''
                                          ''http://pma.test/phpmyadmin/'')]"
        and c = client0 and ?s1.0 = ?s1 and parser = ?p
        and ?r1.0 = "error_response 503 ''Service Unavailable'' ''http://pma.test/phpmyadmin/''"
        and e = "HTTPError (''503 Server Error: Service Unavailable for url: '' @
                            ''http://pma.test/phpmyadmin/'')"] get e503
    by blast
  have 3: "fst (authenticate
      (scripted [Inr (ok_response login_html), Inl (ReadTimeout ''Read timed out.'')]) ?p client0) =
      Inl (ConnectionError (''Connection error: '' @ exc_str (ReadTimeout ''Read timed out.''))
             (ReadTimeout ''Read timed out.''))"
    using T [where net = "scripted [Inr (ok_response login_html), Inl (ReadTimeout ''Read timed out.'')]"
        and c = client0 and ?s1.0 = ?s1 and parser = ?p and ?r1.0 = "ok_response login_html"
        and tok = "''abc123''" and ?s2.0 = ?s2 and e = "ReadTimeout ''Read timed out.''"]
      get ok tok post
    by blast
  have 4: "fst (authenticate
      (scripted [Inr (ok_response login_html),
                 Inr (error_response 403 ''Forbidden'' ''http://pma.test/phpmyadmin/index.php'')])
      ?p client0) =
      Inl (ConnectionError
             (''Connection error: '' @ exc_str
                (HTTPError (''403 Client Error: Forbidden for url: '' @
                            ''http://pma.test/phpmyadmin/index.php'')))
             (HTTPError (''403 Client Error: Forbidden for url: '' @
                         ''http://pma.test/phpmyadmin/index.php'')))"
    using T [where net = "scripted [Inr (ok_response login_html),
                 Inr (error_response 403 ''Forbidden'' ''http://pma.test/phpmyadmin/index.php'')]"
        and c = client0 and ?s1.0 = ?s1 and parser = ?p and ?r1.0 = "ok_response login_html"
        and tok = "''abc123''" and ?s2.0 = ?s2
        and ?r2.0 = "error_response 403 ''Forbidden'' ''http://pma.test/phpmyadmin/index.php''"
        and e = "HTTPError (''403 Client Error: Forbidden for url: '' @
                            ''http://pma.test/phpmyadmin/index.php'')"]
      get ok tok post e403
    by blast
  have 5: "fst (get_table_data (scripted [Inl (NameResolutionError ''Name or service not known'')])
      ?q client0 ''testDB'' ''users'') =
      Inl (ConnectionError
             (''Connection error: '' @ exc_str (NameResolutionError ''Name or service not known''))
             (NameResolutionError ''Name or service not known''))"
    using T [where net = "scripted [Inl (NameResolutionError ''Name or service not known'')]"
        and c = client0 and ?s1.0 = ?t1 and parser = ?q and database = "''testDB''"
        and table = "''users''" and e = "NameResolutionError ''Name or service not known''"]
      tget
    by blast
  have 6: "fst (get_table_data
      (scripted [Inr (error_response 500 ''Internal Server Error''
                        ''http://pma.test/phpmyadmin/index.php'')])
      ?q client0 ''testDB'' ''users'') =
      Inl (ConnectionError
             (''Connection error: '' @ exc_str
                (HTTPError (''500 Server Error: Internal Server Error for url: '' @
                            ''http://pma.test/phpmyadmin/index.php'')))
             (HTTPError (''500 Server Error: Internal Server Error for url: '' @
                         ''http://pma.test/phpmyadmin/index.php'')))"
    using T [where net = "scripted [Inr (error_response 500 ''Internal Server Error''
                        ''http://pma.test/phpmyadmin/index.php'')]"
        and c = client0 and ?s1.0 = ?t1 and parser = ?q and database = "''testDB''"
        and table = "''users''"
        and ?r1.0 = "error_response 500 ''Internal Server Error'' ''http://pma.test/phpmyadmin/index.php''"
        and e = "HTTPError (''500 Server Error: Internal Server Error for url: '' @
                            ''http://pma.test/phpmyadmin/index.php'')"]
      tget e500
    by blast
  show ?thesis
    using 1 2 3 4 5 6 by simp
qed

text \<open>
  Claim C8. After \<^verbatim>\<open>authenticate\<close> and after \<^verbatim>\<open>get_table_data\<close>, whatever the
  outcome, the client is the client before the call with only its session replaced:
  \<open>base_url\<close>, \<open>username\<close> and \<open>password\<close> are unchanged. The constructor
  stores the user name and the password as given and a base URL that ends with
  \<^verbatim>\<open>/\<close>, and it still does after either operation.
\<close>

theorem credentials_unchanged:
  "snd (authenticate net parser c) = c\<lparr>session := session (snd (authenticate net parser c))\<rparr> \<and>
   snd (get_table_data net parser c database table) =
     c\<lparr>session := session (snd (get_table_data net parser c database table))\<rparr> \<and>
   base_url (snd (authenticate net parser c)) = base_url c \<and>
   username (snd (authenticate net parser c)) = username c \<and>
   password (snd (authenticate net parser c)) = password c \<and>
   base_url (snd (get_table_data net parser c database table)) = base_url c \<and>
   username (snd (get_table_data net parser c database table)) = username c \<and>
   password (snd (get_table_data net parser c database table)) = password c \<and>
   endswith (base_url (init b u p)) ''/'' \<and>
   username (init b u p) = u \<and>
   password (init b u p) = p \<and>
   endswith (base_url (snd (authenticate net parser (init b u p)))) ''/'' \<and>
   endswith (base_url (snd (get_table_data net parser (init b u p) database table))) ''/''"
proof -
  have a: "snd (authenticate net' parser' c') =
      c'\<lparr>session := session (snd (authenticate net' parser' c'))\<rparr>" for net' parser' c'
    by (simp add: authenticate_def split: prod.splits)
  have g: "snd (get_table_data net' parser' c' database table) =
      c'\<lparr>session := session (snd (get_table_data net' parser' c' database table))\<rparr>"
    for net' parser' c'
    by (simp add: get_table_data_def split: prod.splits)
  have ab: "base_url (snd (authenticate net' parser' c')) = base_url c'"
    and au: "username (snd (authenticate net' parser' c')) = username c'"
    and ap: "password (snd (authenticate net' parser' c')) = password c'" for net' parser' c'
    by (simp_all add: authenticate_def split: prod.splits)
  have gb: "base_url (snd (get_table_data net' parser' c' database table)) = base_url c'"
    and gu: "username (snd (get_table_data net' parser' c' database table)) = username c'"
    and gp: "password (snd (get_table_data net' parser' c' database table)) = password c'"
    for net' parser' c'
    by (simp_all add: get_table_data_def split: prod.splits)
  have i: "endswith (base_url (init b u p)) ''/''"
    by (simp add: init_def endswith_def)
  show ?thesis
    using a [of net parser c] g [of net parser c] i
    by (simp add: ab au ap gb gu gp) (simp add: init_def)
qed

end
